theory Spec2Isabelle
  imports Main
begin

section \<open>Strings of the Go standard library\<close>

text \<open>
  A Go string is a sequence of bytes, here a \<open>char list\<close>. The functions of package
  \<open>strings\<close> that \<open>main.go\<close> calls are modelled on bytes. The cutset and the separator
  that the program passes are the one-byte string \<open>"."\<close>, for which the byte-wise and the
  rune-wise reading of Go coincide.
\<close>

definition dq :: string where
  \<comment> \<open>the one-byte string holding a double quote, Go's \<open>"\""\<close>\<close>
  "dq = [CHR 0x22]"

definition HasSuffix :: "string \<Rightarrow> string \<Rightarrow> bool" where
  "HasSuffix s suffix =
     (length s \<ge> length suffix \<and> drop (length s - length suffix) s = suffix)"

definition TrimSuffix :: "string \<Rightarrow> string \<Rightarrow> string" where
  "TrimSuffix s suffix =
     (if HasSuffix s suffix then take (length s - length suffix) s else s)"

definition Trim :: "string \<Rightarrow> string \<Rightarrow> string" where
  \<comment> \<open>all leading and all trailing bytes that occur in the cutset are removed\<close>
  "Trim s cutset =
     rev (dropWhile (\<lambda>c. c \<in> set cutset) (rev (dropWhile (\<lambda>c. c \<in> set cutset) s)))"

text \<open>
  \<open>strings.Split\<close> at a one-byte separator: cut at the first occurrence of the separator,
  keep what is before it, go on with what is after it; the rest with no separator is the
  last element. The result is never empty: \<open>Split "" "."\<close> is \<open>[""]\<close>.
\<close>

function Split :: "string \<Rightarrow> char \<Rightarrow> string list" where
  "Split s sep =
     (case dropWhile (\<lambda>c. c \<noteq> sep) s of
        [] \<Rightarrow> [s]
      | _ # rest \<Rightarrow> takeWhile (\<lambda>c. c \<noteq> sep) s # Split rest sep)"
  by pat_completeness auto
termination
proof (relation "measure (\<lambda>(s, sep). length s)")
  show "wf (measure (\<lambda>(s, sep). length s))" by simp
next
  fix s :: string and sep d :: char and rest :: string
  assume "dropWhile (\<lambda>c. c \<noteq> sep) s = d # rest"
  then have "length (d # rest) \<le> length s"
    by (metis length_dropWhile_le)
  then show "((rest, sep), (s, sep)) \<in> measure (\<lambda>(s, sep). length s)" by simp
qed

fun Join :: "string list \<Rightarrow> string \<Rightarrow> string" where
  "Join [] sep = []"
| "Join [x] sep = x"
| "Join (x # y # ys) sep = x @ sep @ Join (y # ys) sep"

section \<open>Slices of Go\<close>

text \<open>
  An index expression \<open>xs[i]\<close> and a slice expression \<open>xs[0:hi]\<close> panic at run time when
  the index is out of range; \<open>None\<close> is the panic. Go computes the index as a signed
  \<open>int\<close>, so \<open>len(xs) - 2\<close> is negative for a one-element slice.
\<close>

definition index :: "'a list \<Rightarrow> int \<Rightarrow> 'a option" where
  "index xs i = (if 0 \<le> i \<and> i < int (length xs) then Some (xs ! nat i) else None)"

definition slice_to :: "'a list \<Rightarrow> int \<Rightarrow> 'a list option" where
  "slice_to xs hi = (if 0 \<le> hi \<and> hi \<le> int (length xs) then Some (take (nat hi) xs) else None)"

section \<open>Errors\<close>

text \<open>
  An error is either one that a collaborator returned (the JSON decoder, the secret store,
  the DNS provider), opaque to the program, or one that the program builds with
  \<open>fmt.Errorf\<close>: the format string with its arguments, each under the verb that prints it
  (\<open>%s\<close>, \<open>%q\<close>, \<open>%v\<close>).
\<close>

datatype error = Opaque string | Errorf string "fmt_arg list"
and fmt_arg = S string | Q string | V error

section \<open>Data model\<close>

record SecretKeySelector =
  RefName :: string  \<comment> \<open>\<open>LocalObjectReference.Name\<close>\<close>
  RefKey :: string  \<comment> \<open>\<open>Key\<close>\<close>

record gandiDNSProviderConfig =
  APIKeySecretRef :: SecretKeySelector

record ChallengeRequest =
  ResourceNamespace :: string
  ResolvedZone :: string
  ResolvedFQDN :: string
  Key :: string
  Config :: "string option"  \<comment> \<open>\<open>*extapi.JSON\<close>: \<open>None\<close> is nil, otherwise the raw bytes\<close>

record Secret =
  Data :: "string \<rightharpoonup> string"

text \<open>
  The solver holds the Kubernetes client that \<open>Initialize\<close> stores; before that the field
  is nil. Of the client only \<open>Secrets(namespace).Get(name)\<close> is used.
\<close>

record gandiDNSProviderSolver =
  client :: "(string \<Rightarrow> string \<Rightarrow> error + Secret) option"

record ClientConfig =
  APIKey :: string
  Debug :: bool
  DryRun :: bool

record DomainRecord =
  RrsetType :: string
  RrsetTTL :: int
  RrsetName :: string
  RrsetValues :: "string list"

text \<open>The four operations of the provider client that the solver calls.\<close>

record LiveDNS =
  getRecord :: "string \<Rightarrow> string \<Rightarrow> string \<Rightarrow> error + DomainRecord"
  createRecord :: "string \<Rightarrow> string \<Rightarrow> string \<Rightarrow> int \<Rightarrow> string list \<Rightarrow> error option"
  updateRecord :: "string \<Rightarrow> string \<Rightarrow> string \<Rightarrow> int \<Rightarrow> string list \<Rightarrow> error option"
  deleteRecord :: "string \<Rightarrow> string \<Rightarrow> string \<Rightarrow> error option"

text \<open>
  The collaborators outside the repository: \<open>json.Unmarshal\<close> into a config struct (it
  returns the struct as far as it was filled, and an error or nil) and the constructor of
  the provider client.
\<close>

record world =
  json_Unmarshal :: "string \<Rightarrow> gandiDNSProviderConfig \<Rightarrow> gandiDNSProviderConfig \<times> error option"
  gandi_NewLiveDNSClient :: "ClientConfig \<Rightarrow> LiveDNS"

text \<open>
  What an operation did to the provider: the calls in the order they were issued, each with
  the error it returned (\<open>None\<close> for nil).
\<close>

datatype call =
    NewLiveDNSClient ClientConfig
  | GetDomainRecordByNameAndType string string string
  | CreateDomainRecord string string string int "string list"
  | UpdateDomainRecordByNameAndType string string string int "string list"
  | DeleteDomainRecord string string string

type_synonym trace = "(call \<times> error option) list"

datatype outcome = Panicked | Returned "error option"

section \<open>The solver\<close>

definition GandiMinTtl :: int where
  "GandiMinTtl = 300"

definition extractRootAndSubDomain ::
  "string \<Rightarrow> string \<Rightarrow> (string \<times> string \<times> error option) option" where
  "extractRootAndSubDomain fqdn entry =
     (let parts = Split (Trim fqdn ''.'') (CHR ''.'');
          n = int (length parts)
      in case index parts (n - 2) of
           None \<Rightarrow> None
         | Some p2 \<Rightarrow>
             (case index parts (n - 1) of
                None \<Rightarrow> None
              | Some p1 \<Rightarrow>
                  (let domain = p2 @ ''.'' @ p1
                   in case slice_to parts (n - 2) of
                        None \<Rightarrow> None
                      | Some front \<Rightarrow>
                          Some (domain, Join (Trim entry ''.'' # front) ''.'', None))))"

definition loadConfig ::
  "(string \<Rightarrow> gandiDNSProviderConfig \<Rightarrow> gandiDNSProviderConfig \<times> error option) \<Rightarrow>
   string option \<Rightarrow> gandiDNSProviderConfig \<times> error option" where
  "loadConfig unmarshal cfgJSON =
     (let cfg = \<lparr>APIKeySecretRef = \<lparr>RefName = [], RefKey = []\<rparr>\<rparr>
      in case cfgJSON of
           None \<Rightarrow> (cfg, None)
         | Some raw \<Rightarrow>
             (case unmarshal raw cfg of
                (cfg', Some err) \<Rightarrow>
                  (cfg', Some (Errorf ''error decoding solver config: %v'' [V err]))
              | (cfg', None) \<Rightarrow> (cfg', None)))"

definition getDomainAndEntry ::
  "gandiDNSProviderSolver \<Rightarrow> ChallengeRequest \<Rightarrow> string \<times> string" where
  "getDomainAndEntry c ch =
     (let entry = TrimSuffix (ResolvedFQDN ch) (ResolvedZone ch);
          entry = TrimSuffix entry ''.'';
          domain = TrimSuffix (ResolvedZone ch) ''.''
      in (entry, domain))"

definition getApiKey ::
  "gandiDNSProviderSolver \<Rightarrow> gandiDNSProviderConfig \<Rightarrow> string \<Rightarrow> (error + string) option" where
  "getApiKey c cfg namespace =
     (let secretName = RefName (APIKeySecretRef cfg)
      in case client c of
           None \<Rightarrow> None
         | Some secrets \<Rightarrow>
             (case secrets namespace secretName of
                Inl err \<Rightarrow>
                  Some (Inl (Errorf ''unable to get secret `%s`; %v'' [S secretName, V err]))
              | Inr sec \<Rightarrow>
                  (case Data sec (RefKey (APIKeySecretRef cfg)) of
                     None \<Rightarrow>
                       Some (Inl (Errorf (''key %q not found in secret '' @ dq @ ''%s/%s'' @ dq)
                                    [Q (RefKey (APIKeySecretRef cfg)),
                                     S (RefName (APIKeySecretRef cfg)), S namespace]))
                   | Some secBytes \<Rightarrow> Some (Inr secBytes))))"

definition Present ::
  "gandiDNSProviderSolver \<Rightarrow> world \<Rightarrow> ChallengeRequest \<Rightarrow> outcome \<times> trace" where
  "Present c w ch =
     (case loadConfig (json_Unmarshal w) (Config ch) of
        (cfg, Some err) \<Rightarrow> (Returned (Some (Errorf ''unable to load config: %v'' [V err])), [])
      | (cfg, None) \<Rightarrow>
     (case getApiKey c cfg (ResourceNamespace ch) of
        None \<Rightarrow> (Panicked, [])
      | Some (Inl err) \<Rightarrow> (Returned (Some (Errorf ''unable to get API key: %v'' [V err])), [])
      | Some (Inr apiKey) \<Rightarrow>
     (let clientcfg = \<lparr>APIKey = apiKey, Debug = False, DryRun = False\<rparr>;
          gandiClient = gandi_NewLiveDNSClient w clientcfg;
          t0 = [(NewLiveDNSClient clientcfg, None)];
          (entry, domain) = getDomainAndEntry c ch
      in case extractRootAndSubDomain domain entry of
           None \<Rightarrow> (Panicked, t0)
         | Some (root, subdomain, Some err) \<Rightarrow>
             (Returned (Some (Errorf ''unable to mange provided domain : %v'' [V err])), t0)
         | Some (root, subdomain, None) \<Rightarrow>
     (case getRecord gandiClient root subdomain ''TXT'' of
        Inl err \<Rightarrow>
          (let t1 = t0 @ [(GetDomainRecordByNameAndType root subdomain ''TXT'', Some err)];
               cr = CreateDomainRecord root subdomain ''TXT'' GandiMinTtl [Key ch]
           in case createRecord gandiClient root subdomain ''TXT'' GandiMinTtl [Key ch] of
                Some err \<Rightarrow>
                  (Returned (Some (Errorf ''unable to create TXT record: %v'' [V err])),
                   t1 @ [(cr, Some err)])
              | None \<Rightarrow> (Returned None, t1 @ [(cr, None)]))
      | Inr record \<Rightarrow>
          (let t1 = t0 @ [(GetDomainRecordByNameAndType root subdomain ''TXT'', None)]
           in if Join (RrsetValues record) '''' \<noteq> dq @ Key ch @ dq then
                (let up = UpdateDomainRecordByNameAndType root subdomain ''TXT'' GandiMinTtl [Key ch]
                 in case updateRecord gandiClient root subdomain ''TXT'' GandiMinTtl [Key ch] of
                      Some err \<Rightarrow>
                        (Returned (Some (Errorf ''unable to update TXT record: %v'' [V err])),
                         t1 @ [(up, Some err)])
                    | None \<Rightarrow> (Returned None, t1 @ [(up, None)]))
              else (Returned None, t1))))))"

definition CleanUp ::
  "gandiDNSProviderSolver \<Rightarrow> world \<Rightarrow> ChallengeRequest \<Rightarrow> outcome \<times> trace" where
  "CleanUp c w ch =
     (case loadConfig (json_Unmarshal w) (Config ch) of
        (cfg, Some err) \<Rightarrow> (Returned (Some (Errorf ''unable to load config: %v'' [V err])), [])
      | (cfg, None) \<Rightarrow>
     (case getApiKey c cfg (ResourceNamespace ch) of
        None \<Rightarrow> (Panicked, [])
      | Some (Inl err) \<Rightarrow> (Returned (Some (Errorf ''unable to get API key: %v'' [V err])), [])
      | Some (Inr apiKey) \<Rightarrow>
     (let clientcfg = \<lparr>APIKey = apiKey, Debug = True, DryRun = False\<rparr>;
          gandiClient = gandi_NewLiveDNSClient w clientcfg;
          t0 = [(NewLiveDNSClient clientcfg, None)];
          (entry, domain) = getDomainAndEntry c ch
      in case extractRootAndSubDomain domain entry of
           None \<Rightarrow> (Panicked, t0)
         | Some (root, subdomain, Some err) \<Rightarrow>
             (Returned (Some (Errorf ''unable to mange provided domain : %v'' [V err])), t0)
         | Some (root, subdomain, None) \<Rightarrow>
     (case getRecord gandiClient root subdomain ''TXT'' of
        Inl err \<Rightarrow>
          (Returned None, t0 @ [(GetDomainRecordByNameAndType root subdomain ''TXT'', Some err)])
      | Inr record \<Rightarrow>
          (let t1 = t0 @ [(GetDomainRecordByNameAndType root subdomain ''TXT'', None)];
               del = DeleteDomainRecord root subdomain ''TXT''
           in case deleteRecord gandiClient root subdomain ''TXT'' of
                Some err \<Rightarrow>
                  (Returned (Some (Errorf ''unable to delete TXT record: %v'' [V err])),
                   t1 @ [(del, Some err)])
              | None \<Rightarrow> (Returned None, t1 @ [(del, None)]))))))"

section \<open>Notions of the specification\<close>

text \<open>
  The specification's \<open>strip_trailing_dot\<close>: one trailing dot is removed when there is
  one.
\<close>

definition strip_trailing_dot :: "string \<Rightarrow> string" where
  "strip_trailing_dot s = (if s \<noteq> [] \<and> last s = CHR ''.'' then butlast s else s)"

text \<open>The calls that write a record when a challenge is presented: create and update.\<close>

definition is_write :: "call \<Rightarrow> bool" where
  "is_write cl = (case cl of CreateDomainRecord _ _ _ _ _ \<Rightarrow> True
                 | UpdateDomainRecordByNameAndType _ _ _ _ _ \<Rightarrow> True | _ \<Rightarrow> False)"

text \<open>A create or update call of the trace returned an error.\<close>

definition write_fails :: "trace \<Rightarrow> bool" where
  "write_fails tr = list_ex (\<lambda>(cl, r). is_write cl \<and> r \<noteq> None) tr"

text \<open>Decoding the configuration of the request returned an error.\<close>

definition decode_fails :: "world \<Rightarrow> ChallengeRequest \<Rightarrow> bool" where
  "decode_fails w ch = (snd (loadConfig (json_Unmarshal w) (Config ch)) \<noteq> None)"

text \<open>Resolving the API key from the decoded configuration returned an error.\<close>

definition credential_fails :: "gandiDNSProviderSolver \<Rightarrow> world \<Rightarrow> ChallengeRequest \<Rightarrow> bool" where
  "credential_fails c w ch =
     (case getApiKey c (fst (loadConfig (json_Unmarshal w) (Config ch))) (ResourceNamespace ch) of
        Some (Inl _) \<Rightarrow> True | _ \<Rightarrow> False)"

section \<open>A concrete environment\<close>

text \<open>
  One secret \<open>gandi-credentials\<close> in namespace \<open>cert-manager\<close>, a decoder that accepts one
  configuration document, and a provider whose zone content and whose answer to every
  write are parameters. The challenge is the scenario of the specification: zone
  \<open>example.com.\<close>, name \<open>_acme-challenge.foo.example.com.\<close>, key \<open>abc123\<close>.
\<close>

definition demo_json :: string where
  "demo_json = ''{'' @ dq @ ''apiKeySecretRef'' @ dq @ '':{'' @ dq @ ''name'' @ dq @ '':'' @ dq
     @ ''gandi-credentials'' @ dq @ '','' @ dq @ ''key'' @ dq @ '':'' @ dq @ ''api-token'' @ dq @ ''}}''"

definition demo_unmarshal ::
  "string \<Rightarrow> gandiDNSProviderConfig \<Rightarrow> gandiDNSProviderConfig \<times> error option" where
  "demo_unmarshal raw cfg =
     (if raw = demo_json
      then (\<lparr>APIKeySecretRef = \<lparr>RefName = ''gandi-credentials'', RefKey = ''api-token''\<rparr>\<rparr>, None)
      else (cfg, Some (Opaque ''unexpected end of JSON input'')))"

definition demo_secrets :: "string \<Rightarrow> string \<Rightarrow> error + Secret" where
  "demo_secrets namespace name =
     (if namespace = ''cert-manager'' \<and> name = ''gandi-credentials''
      then Inr \<lparr>Data = [''api-token'' \<mapsto> ''s3cret'']\<rparr>
      else Inl (Opaque ''secret not found''))"

definition demo_solver :: gandiDNSProviderSolver where
  "demo_solver = \<lparr>client = Some demo_secrets\<rparr>"

definition demo_dns :: "(string \<times> string \<rightharpoonup> string list) \<Rightarrow> error option \<Rightarrow> LiveDNS" where
  "demo_dns zone wr =
     \<lparr>getRecord = (\<lambda>root name ty.
         case zone (root, name) of
           None \<Rightarrow> Inl (Opaque ''404 Not Found'')
         | Some vs \<Rightarrow> Inr \<lparr>RrsetType = ty, RrsetTTL = 300, RrsetName = name, RrsetValues = vs\<rparr>),
       createRecord = (\<lambda>root name ty ttl vs. wr),
       updateRecord = (\<lambda>root name ty ttl vs. wr),
       deleteRecord = (\<lambda>root name ty. wr)\<rparr>"

definition demo_world :: "(string \<times> string \<rightharpoonup> string list) \<Rightarrow> error option \<Rightarrow> world" where
  "demo_world zone wr =
     \<lparr>json_Unmarshal = demo_unmarshal, gandi_NewLiveDNSClient = (\<lambda>cfg. demo_dns zone wr)\<rparr>"

definition demo_challenge :: ChallengeRequest where
  "demo_challenge =
     \<lparr>ResourceNamespace = ''cert-manager'', ResolvedZone = ''example.com.'',
      ResolvedFQDN = ''_acme-challenge.foo.example.com.'', Key = ''abc123'',
      Config = Some demo_json\<rparr>"

definition demo_zone :: "string list \<Rightarrow> (string \<times> string \<rightharpoonup> string list)" where
  "demo_zone vs = [(''example.com'', ''_acme-challenge.foo'') \<mapsto> vs]"

definition demo_record :: "string list \<Rightarrow> DomainRecord" where
  "demo_record vs =
     \<lparr>RrsetType = ''TXT'', RrsetTTL = 300, RrsetName = ''_acme-challenge.foo'', RrsetValues = vs\<rparr>"

section \<open>Facts about the string functions\<close>

declare Split.simps [simp del]

lemma Split_nonempty: "Split s sep \<noteq> []"
  by (subst Split.simps) (simp split: list.splits)

lemma Split_last:
  assumes "dropWhile (\<lambda>c. c \<noteq> sep) s = []"
  shows "Split s sep = [s]"
  by (subst Split.simps) (simp only: assms list.case)

lemma Split_cut:
  assumes "dropWhile (\<lambda>c. c \<noteq> sep) s = d # rest"
  shows "Split s sep = takeWhile (\<lambda>c. c \<noteq> sep) s # Split rest sep"
  by (subst Split.simps) (simp only: assms list.case)

lemma Join_Cons: "xs \<noteq> [] \<Longrightarrow> Join (x # xs) sep = x @ sep @ Join xs sep"
  by (cases xs) simp_all

lemma Join_Split: "Join (Split s sep) [sep] = s"
proof (induction s sep rule: Split.induct)
  case (1 s sep)
  show ?case
  proof (cases "dropWhile (\<lambda>c. c \<noteq> sep) s")
    case Nil
    then show ?thesis by (simp add: Split_last)
  next
    case (Cons d rest)
    have "dropWhile (\<lambda>c. c \<noteq> sep) s \<noteq> []" by (simp only: Cons) simp
    then have "\<not> (hd (dropWhile (\<lambda>c. c \<noteq> sep) s) \<noteq> sep)"
      by (rule hd_dropWhile)
    then have d: "d = sep" by (simp only: Cons) simp
    have "Split s sep = takeWhile (\<lambda>c. c \<noteq> sep) s # Split rest sep"
      by (rule Split_cut [OF Cons])
    then have "Join (Split s sep) [sep] = takeWhile (\<lambda>c. c \<noteq> sep) s @ [sep] @ Join (Split rest sep) [sep]"
      by (simp add: Join_Cons Split_nonempty)
    also have "\<dots> = takeWhile (\<lambda>c. c \<noteq> sep) s @ dropWhile (\<lambda>c. c \<noteq> sep) s"
      using "1.IH" [OF Cons] by (simp add: Cons d)
    finally show ?thesis by simp
  qed
qed

lemma Split_labels_no_sep: "l \<in> set (Split s sep) \<Longrightarrow> sep \<notin> set l"
proof (induction s sep rule: Split.induct)
  case (1 s sep)
  show ?case
  proof (cases "dropWhile (\<lambda>c. c \<noteq> sep) s")
    case Nil
    then have "Split s sep = [s]" by (rule Split_last)
    with "1.prems" Nil show ?thesis by (auto simp: dropWhile_eq_Nil_conv)
  next
    case (Cons d rest)
    have "Split s sep = takeWhile (\<lambda>c. c \<noteq> sep) s # Split rest sep"
      by (rule Split_cut [OF Cons])
    with "1.prems" "1.IH" [OF Cons] show ?thesis
      by (auto dest: set_takeWhileD)
  qed
qed

lemma Join_empty_sep: "Join xs [] = concat xs"
  by (induction xs "[] :: string" rule: Join.induct) auto

lemma TrimSuffix_append: "TrimSuffix (p @ z) z = p"
  by (simp add: TrimSuffix_def HasSuffix_def)

lemma TrimSuffix_dot: "TrimSuffix s ''.'' = strip_trailing_dot s"
  by (cases s rule: rev_cases) (auto simp: TrimSuffix_def HasSuffix_def strip_trailing_dot_def)

lemma Trim_snoc:
  assumes c: "c \<in> set cs"
  shows "Trim (s @ [c]) cs = Trim s cs"
proof (cases "\<forall>x\<in>set s. x \<in> set cs")
  case True
  then have "dropWhile (\<lambda>c. c \<in> set cs) s = []" by simp
  moreover from True c have "dropWhile (\<lambda>c. c \<in> set cs) (s @ [c]) = []" by simp
  ultimately show ?thesis by (simp only: Trim_def)
next
  case False
  then obtain x where "x \<in> set s" "x \<notin> set cs" by blast
  then have "dropWhile (\<lambda>c. c \<in> set cs) (s @ [c]) = dropWhile (\<lambda>c. c \<in> set cs) s @ [c]"
    by (simp add: dropWhile_append1)
  with c show ?thesis by (simp add: Trim_def)
qed

lemma Trim_TrimSuffix_dot: "Trim (TrimSuffix z ''.'') ''.'' = Trim z ''.''"
  by (cases z rule: rev_cases) (auto simp: TrimSuffix_dot strip_trailing_dot_def Trim_snoc)

lemma Trim_replicate: "Trim (replicate k c) [c] = []"
  by (simp add: Trim_def dropWhile_eq_Nil_conv)

section \<open>Facts about the domain split\<close>

lemma two_or_more:
  assumes "2 \<le> length xs"
  obtains front a b where "xs = front @ [a, b]"
proof (cases xs rule: rev_cases)
  case Nil
  with assms show ?thesis by simp
next
  case (snoc ys b)
  show ?thesis
  proof (cases ys rule: rev_cases)
    case Nil
    with snoc assms show ?thesis by simp
  next
    case (snoc zs a)
    with \<open>xs = ys @ [b]\<close> that [of zs a b] show ?thesis by simp
  qed
qed

lemma index_snoc2:
  "index (front @ [a, b]) (int (length (front @ [a, b])) - 2) = Some a"
  "index (front @ [a, b]) (int (length (front @ [a, b])) - 1) = Some b"
  "slice_to (front @ [a, b]) (int (length (front @ [a, b])) - 2) = Some front"
proof -
  have n2: "int (length (front @ [a, b])) - 2 = int (length front)" by simp
  have n1: "int (length (front @ [a, b])) - 1 = int (Suc (length front))" by simp
  show "index (front @ [a, b]) (int (length (front @ [a, b])) - 2) = Some a"
    unfolding n2 by (simp add: index_def)
  show "index (front @ [a, b]) (int (length (front @ [a, b])) - 1) = Some b"
    unfolding n1 index_def by (simp add: nth_append del: of_nat_Suc)
  show "slice_to (front @ [a, b]) (int (length (front @ [a, b])) - 2) = Some front"
    unfolding n2 by (simp add: slice_to_def)
qed

lemma extract_None_iff:
  "extractRootAndSubDomain fqdn entry = None \<longleftrightarrow> length (Split (Trim fqdn ''.'') (CHR ''.'')) < 2"
proof (cases "2 \<le> length (Split (Trim fqdn ''.'') (CHR ''.''))")
  case True
  then obtain front a b where p: "Split (Trim fqdn ''.'') (CHR ''.'') = front @ [a, b]"
    by (rule two_or_more)
  have "extractRootAndSubDomain fqdn entry \<noteq> None"
    by (simp add: extractRootAndSubDomain_def Let_def p index_snoc2 del: append.simps length_append)
  with True show ?thesis by simp
next
  case False
  then have "index (Split (Trim fqdn ''.'') (CHR ''.''))
      (int (length (Split (Trim fqdn ''.'') (CHR ''.''))) - 2) = None"
    by (simp add: index_def)
  with False show ?thesis by (simp add: extractRootAndSubDomain_def Let_def)
qed

lemma extract_no_error:
  "extractRootAndSubDomain fqdn entry = Some (root, subdomain, err) \<Longrightarrow> err = None"
  by (auto simp: extractRootAndSubDomain_def Let_def split: option.splits)

lemma domain_labels:
  "Split (Trim (snd (getDomainAndEntry c ch)) ''.'') (CHR ''.'') =
   Split (Trim (ResolvedZone ch) ''.'') (CHR ''.'')"
  by (simp add: getDomainAndEntry_def Trim_TrimSuffix_dot)

lemma Present_Panicked_iff:
  assumes "loadConfig (json_Unmarshal w) (Config ch) = (cfg, None)"
    and "getApiKey c cfg (ResourceNamespace ch) = Some (Inr apiKey)"
  shows "fst (Present c w ch) = Panicked \<longleftrightarrow>
           extractRootAndSubDomain (snd (getDomainAndEntry c ch)) (fst (getDomainAndEntry c ch)) = None"
  using assms
  by (auto simp: Present_def Let_def split: prod.splits option.splits sum.splits if_splits)

lemma CleanUp_Panicked_iff:
  assumes "loadConfig (json_Unmarshal w) (Config ch) = (cfg, None)"
    and "getApiKey c cfg (ResourceNamespace ch) = Some (Inr apiKey)"
  shows "fst (CleanUp c w ch) = Panicked \<longleftrightarrow>
           extractRootAndSubDomain (snd (getDomainAndEntry c ch)) (fst (getDomainAndEntry c ch)) = None"
  using assms
  by (auto simp: CleanUp_def Let_def split: prod.splits option.splits sum.splits if_splits)

section \<open>The concrete environment, evaluated\<close>

lemmas demo_defs = demo_json_def demo_unmarshal_def demo_secrets_def demo_solver_def demo_dns_def
  demo_world_def demo_challenge_def dq_def

lemma demo_loadConfig:
  "loadConfig (json_Unmarshal (demo_world zone wr)) (Config demo_challenge) =
     (\<lparr>APIKeySecretRef = \<lparr>RefName = ''gandi-credentials'', RefKey = ''api-token''\<rparr>\<rparr>, None)"
  by (simp add: loadConfig_def demo_defs)

lemma demo_getApiKey:
  "getApiKey demo_solver \<lparr>APIKeySecretRef = \<lparr>RefName = ''gandi-credentials'', RefKey = ''api-token''\<rparr>\<rparr>
     (ResourceNamespace demo_challenge) = Some (Inr ''s3cret'')"
  by (simp add: getApiKey_def demo_defs)

lemma demo_getDomainAndEntry:
  "getDomainAndEntry demo_solver demo_challenge = (''_acme-challenge.foo'', ''example.com'')"
  by (simp add: getDomainAndEntry_def demo_defs TrimSuffix_def HasSuffix_def)

lemma demo_extract:
  "extractRootAndSubDomain ''example.com'' ''_acme-challenge.foo'' =
     Some (''example.com'', ''_acme-challenge.foo'', None)"
  by (simp add: extractRootAndSubDomain_def Trim_def Split.simps index_def slice_to_def)

lemma demo_Present_absent:
  "Present demo_solver (demo_world Map.empty None) demo_challenge =
    (Returned None,
     [(NewLiveDNSClient \<lparr>APIKey = ''s3cret'', Debug = False, DryRun = False\<rparr>, None),
      (GetDomainRecordByNameAndType ''example.com'' ''_acme-challenge.foo'' ''TXT'', Some (Opaque ''404 Not Found'')),
      (CreateDomainRecord ''example.com'' ''_acme-challenge.foo'' ''TXT'' 300 [''abc123''], None)])"
  by (simp add: Present_def demo_loadConfig demo_getApiKey demo_getDomainAndEntry demo_extract
       GandiMinTtl_def) (simp add: demo_defs GandiMinTtl_def)

lemma demo_getRecord_found:
  "getRecord (gandi_NewLiveDNSClient (demo_world (demo_zone vs) wr) cc)
     ''example.com'' ''_acme-challenge.foo'' ''TXT'' = Inr (demo_record vs)"
  by (simp add: demo_world_def demo_dns_def demo_zone_def demo_record_def)

lemma demo_getRecord_absent:
  "getRecord (gandi_NewLiveDNSClient (demo_world Map.empty wr) cc)
     ''example.com'' ''_acme-challenge.foo'' ''TXT'' = Inl (Opaque ''404 Not Found'')"
  by (simp add: demo_world_def demo_dns_def)

lemma demo_writes:
  "createRecord (gandi_NewLiveDNSClient (demo_world zone wr) cc) root name ty ttl vs = wr"
  "updateRecord (gandi_NewLiveDNSClient (demo_world zone wr) cc) root name ty ttl vs = wr"
  "deleteRecord (gandi_NewLiveDNSClient (demo_world zone wr) cc) root name ty = wr"
  by (simp_all add: demo_world_def demo_dns_def)

section \<open>The claims\<close>

text \<open>
  Claim C1. When the dot-trimmed domain splits at dots into at least two labels, that is
  into \<open>front @ [l2, l1]\<close>, the domain split returns as root the last two labels joined
  with a dot, as subdomain the dot-trimmed entry followed by the labels before the last
  two, in their order, joined with dots, and a nil error. For \<open>a.b.example.com\<close> the root
  is \<open>example.com\<close> and the subdomain is the entry followed by \<open>a\<close> and \<open>b\<close>.
\<close>

theorem extractRootAndSubDomain_last_two_labels:
  assumes "Split (Trim fqdn ''.'') (CHR ''.'') = front @ [l2, l1]"
  shows "extractRootAndSubDomain fqdn entry =
           Some (Join [l2, l1] ''.'', Join (Trim entry ''.'' # front) ''.'', None)"
  by (simp add: extractRootAndSubDomain_def Let_def assms index_snoc2 del: append.simps length_append)

theorem extractRootAndSubDomain_last_two_labels_witness:
  "Split (Trim ''a.b.example.com'' ''.'') (CHR ''.'') = [''a'', ''b''] @ [''example'', ''com'']
   \<and> extractRootAndSubDomain ''a.b.example.com'' ''_acme-challenge'' =
       Some (''example.com'', ''_acme-challenge.a.b'', None)
   \<and> extractRootAndSubDomain ''example.com'' ''_acme-challenge.foo'' =
       Some (''example.com'', ''_acme-challenge.foo'', None)"
proof -
  have h: "Split (Trim ''a.b.example.com'' ''.'') (CHR ''.'') = [''a'', ''b''] @ [''example'', ''com'']"
    by (simp add: Trim_def Split.simps)
  have h': "Split (Trim ''example.com'' ''.'') (CHR ''.'') = [] @ [''example'', ''com'']"
    by (simp add: Trim_def Split.simps)
  from h extractRootAndSubDomain_last_two_labels [OF h, of "''_acme-challenge''"]
    extractRootAndSubDomain_last_two_labels [OF h', of "''_acme-challenge.foo''"]
  show ?thesis by (simp add: Trim_def)
qed

text \<open>
  Claim C2. When the resolved name ends with the resolved zone, the entry is the name
  without that suffix and without its trailing dot, and the domain is the zone without
  its trailing dot. \<open>TrimSuffix\<close> removes one dot, as \<open>strip_trailing_dot\<close> does.
\<close>

theorem getDomainAndEntry_strips:
  assumes "ResolvedFQDN ch = prefix @ ResolvedZone ch"
  shows "getDomainAndEntry c ch = (strip_trailing_dot prefix, strip_trailing_dot (ResolvedZone ch))"
  by (simp add: getDomainAndEntry_def assms TrimSuffix_append TrimSuffix_dot)

theorem getDomainAndEntry_strips_witness:
  "ResolvedFQDN demo_challenge = ''_acme-challenge.foo.'' @ ResolvedZone demo_challenge
   \<and> getDomainAndEntry demo_solver demo_challenge = (''_acme-challenge.foo'', ''example.com'')"
proof -
  have h: "ResolvedFQDN demo_challenge = ''_acme-challenge.foo.'' @ ResolvedZone demo_challenge"
    by (simp add: demo_challenge_def)
  from h getDomainAndEntry_strips [OF h, of demo_solver]
  show ?thesis by (simp add: strip_trailing_dot_def demo_challenge_def)
qed

text \<open>
  Claim C3. Let the configuration decode, the API key resolve and the domain split, and
  let the lookup of the TXT record at (root, subdomain) return a record. When the values
  of the record, concatenated with no separator, are the key in double quotes, Present
  returns nil after the lookup and issues neither a create nor an update. When they
  differ, Present issues after the lookup exactly one call, the update of (root,
  subdomain, TXT) with TTL 300 and the key as the only value.
\<close>

theorem Present_idempotent:
  assumes "loadConfig (json_Unmarshal w) (Config ch) = (cfg, None)"
    and "getApiKey c cfg (ResourceNamespace ch) = Some (Inr apiKey)"
    and "getDomainAndEntry c ch = (entry, domain)"
    and "extractRootAndSubDomain domain entry = Some (root, subdomain, None)"
    and "clientcfg = \<lparr>APIKey = apiKey, Debug = False, DryRun = False\<rparr>"
    and "getRecord (gandi_NewLiveDNSClient w clientcfg) root subdomain ''TXT'' = Inr record"
  shows "(concat (RrsetValues record) = dq @ Key ch @ dq \<longrightarrow>
            Present c w ch =
              (Returned None,
               [(NewLiveDNSClient clientcfg, None),
                (GetDomainRecordByNameAndType root subdomain ''TXT'', None)]) \<and>
            filter is_write (map fst (snd (Present c w ch))) = [])
       \<and> (concat (RrsetValues record) \<noteq> dq @ Key ch @ dq \<longrightarrow>
            snd (Present c w ch) =
              [(NewLiveDNSClient clientcfg, None),
               (GetDomainRecordByNameAndType root subdomain ''TXT'', None),
               (UpdateDomainRecordByNameAndType root subdomain ''TXT'' 300 [Key ch],
                updateRecord (gandi_NewLiveDNSClient w clientcfg) root subdomain ''TXT'' 300 [Key ch])] \<and>
            filter is_write (map fst (snd (Present c w ch))) =
              [UpdateDomainRecordByNameAndType root subdomain ''TXT'' 300 [Key ch]])"
  using assms
  by (auto simp: Present_def GandiMinTtl_def Join_empty_sep is_write_def Let_def split: option.splits)

theorem Present_idempotent_witness:
  "Present demo_solver (demo_world (demo_zone [dq @ ''abc123'' @ dq]) None) demo_challenge =
     (Returned None,
      [(NewLiveDNSClient \<lparr>APIKey = ''s3cret'', Debug = False, DryRun = False\<rparr>, None),
       (GetDomainRecordByNameAndType ''example.com'' ''_acme-challenge.foo'' ''TXT'', None)])
   \<and> snd (Present demo_solver (demo_world (demo_zone [dq @ ''stale'' @ dq]) None) demo_challenge) =
      [(NewLiveDNSClient \<lparr>APIKey = ''s3cret'', Debug = False, DryRun = False\<rparr>, None),
       (GetDomainRecordByNameAndType ''example.com'' ''_acme-challenge.foo'' ''TXT'', None),
       (UpdateDomainRecordByNameAndType ''example.com'' ''_acme-challenge.foo'' ''TXT'' 300 [''abc123''],
        None)]"
  using Present_idempotent [OF demo_loadConfig demo_getApiKey demo_getDomainAndEntry demo_extract
      refl demo_getRecord_found, of "[dq @ ''abc123'' @ dq]" None]
    Present_idempotent [OF demo_loadConfig demo_getApiKey demo_getDomainAndEntry demo_extract
      refl demo_getRecord_found, of "[dq @ ''stale'' @ dq]" None]
  by (simp add: demo_record_def demo_challenge_def dq_def demo_writes)

text \<open>
  Claim C4. When the lookup of the TXT record fails, Present issues exactly one create of
  (root, subdomain, TXT) with TTL 300 and the key as the only value, and what it returns
  is decided by that create alone: nil when the create succeeds, the wrapped error of the
  create otherwise. On every request, Present returns an error exactly when decoding the
  configuration fails, resolving the credential fails, or a create or update that it
  issued fails.
\<close>

theorem Present_creates_when_absent:
  "(loadConfig (json_Unmarshal w) (Config ch) = (cfg, None) \<longrightarrow>
    getApiKey c cfg (ResourceNamespace ch) = Some (Inr apiKey) \<longrightarrow>
    getDomainAndEntry c ch = (entry, domain) \<longrightarrow>
    extractRootAndSubDomain domain entry = Some (root, subdomain, None) \<longrightarrow>
    clientcfg = \<lparr>APIKey = apiKey, Debug = False, DryRun = False\<rparr> \<longrightarrow>
    getRecord (gandi_NewLiveDNSClient w clientcfg) root subdomain ''TXT'' = Inl lookup_err \<longrightarrow>
      snd (Present c w ch) =
        [(NewLiveDNSClient clientcfg, None),
         (GetDomainRecordByNameAndType root subdomain ''TXT'', Some lookup_err),
         (CreateDomainRecord root subdomain ''TXT'' 300 [Key ch],
          createRecord (gandi_NewLiveDNSClient w clientcfg) root subdomain ''TXT'' 300 [Key ch])] \<and>
      fst (Present c w ch) =
        Returned (map_option (\<lambda>err. Errorf ''unable to create TXT record: %v'' [V err])
          (createRecord (gandi_NewLiveDNSClient w clientcfg) root subdomain ''TXT'' 300 [Key ch])))
   \<and> ((\<exists>err. fst (Present c w ch) = Returned (Some err)) \<longleftrightarrow>
        decode_fails w ch \<or> credential_fails c w ch \<or> write_fails (snd (Present c w ch)))"
proof (intro conjI impI)
  assume "loadConfig (json_Unmarshal w) (Config ch) = (cfg, None)"
    "getApiKey c cfg (ResourceNamespace ch) = Some (Inr apiKey)"
    "getDomainAndEntry c ch = (entry, domain)"
    "extractRootAndSubDomain domain entry = Some (root, subdomain, None)"
    "clientcfg = \<lparr>APIKey = apiKey, Debug = False, DryRun = False\<rparr>"
    "getRecord (gandi_NewLiveDNSClient w clientcfg) root subdomain ''TXT'' = Inl lookup_err"
  then show "snd (Present c w ch) =
        [(NewLiveDNSClient clientcfg, None),
         (GetDomainRecordByNameAndType root subdomain ''TXT'', Some lookup_err),
         (CreateDomainRecord root subdomain ''TXT'' 300 [Key ch],
          createRecord (gandi_NewLiveDNSClient w clientcfg) root subdomain ''TXT'' 300 [Key ch])]"
    and "fst (Present c w ch) =
        Returned (map_option (\<lambda>err. Errorf ''unable to create TXT record: %v'' [V err])
          (createRecord (gandi_NewLiveDNSClient w clientcfg) root subdomain ''TXT'' 300 [Key ch]))"
    by (auto simp: Present_def GandiMinTtl_def Let_def split: option.splits)
next
  show "(\<exists>err. fst (Present c w ch) = Returned (Some err)) \<longleftrightarrow>
        decode_fails w ch \<or> credential_fails c w ch \<or> write_fails (snd (Present c w ch))"
    by (auto simp: Present_def decode_fails_def credential_fails_def write_fails_def is_write_def
          Let_def dest: extract_no_error split: prod.splits option.splits sum.splits if_splits)
qed

theorem Present_creates_when_absent_witness:
  "snd (Present demo_solver (demo_world Map.empty None) demo_challenge) =
     [(NewLiveDNSClient \<lparr>APIKey = ''s3cret'', Debug = False, DryRun = False\<rparr>, None),
      (GetDomainRecordByNameAndType ''example.com'' ''_acme-challenge.foo'' ''TXT'',
       Some (Opaque ''404 Not Found'')),
      (CreateDomainRecord ''example.com'' ''_acme-challenge.foo'' ''TXT'' 300 [''abc123''], None)]
   \<and> fst (Present demo_solver (demo_world Map.empty None) demo_challenge) = Returned None
   \<and> \<not> decode_fails (demo_world Map.empty None) demo_challenge
   \<and> \<not> credential_fails demo_solver (demo_world Map.empty None) demo_challenge
   \<and> \<not> write_fails (snd (Present demo_solver (demo_world Map.empty None) demo_challenge))
   \<and> fst (Present demo_solver (demo_world Map.empty (Some (Opaque ''403 Forbidden''))) demo_challenge) =
       Returned (Some (Errorf ''unable to create TXT record: %v'' [V (Opaque ''403 Forbidden'')]))
   \<and> write_fails (snd (Present demo_solver (demo_world Map.empty (Some (Opaque ''403 Forbidden''))) demo_challenge))"
proof -
  note ok = Present_creates_when_absent [of "demo_world Map.empty None" demo_challenge _
      demo_solver "''s3cret''" _ _ _ _ _ "Opaque ''404 Not Found''", THEN conjunct1, rule_format,
      OF demo_loadConfig demo_getApiKey demo_getDomainAndEntry demo_extract refl demo_getRecord_absent]
  note bad = Present_creates_when_absent [of "demo_world Map.empty (Some (Opaque ''403 Forbidden''))"
      demo_challenge _ demo_solver "''s3cret''" _ _ _ _ _ "Opaque ''404 Not Found''", THEN conjunct1,
      rule_format,
      OF demo_loadConfig demo_getApiKey demo_getDomainAndEntry demo_extract refl demo_getRecord_absent]
  have d: "\<not> decode_fails (demo_world Map.empty wr) demo_challenge" for wr
    by (simp add: decode_fails_def demo_loadConfig)
  have k: "\<not> credential_fails demo_solver (demo_world Map.empty wr) demo_challenge" for wr
    by (simp add: credential_fails_def demo_loadConfig demo_getApiKey)
  from ok bad d k show ?thesis
    by (simp add: demo_challenge_def demo_writes write_fails_def is_write_def)
qed

text \<open>
  Claim C5. Let the configuration decode, the API key resolve and the domain split. When
  the lookup of the TXT record fails, CleanUp returns nil and issues no delete. When the
  lookup returns a record, whatever its values, CleanUp issues exactly one delete of
  (root, subdomain, TXT); it returns nil when the delete succeeds and the wrapped error of
  the delete otherwise.
\<close>

theorem CleanUp_deletes_when_present:
  assumes "loadConfig (json_Unmarshal w) (Config ch) = (cfg, None)"
    and "getApiKey c cfg (ResourceNamespace ch) = Some (Inr apiKey)"
    and "getDomainAndEntry c ch = (entry, domain)"
    and "extractRootAndSubDomain domain entry = Some (root, subdomain, None)"
    and "clientcfg = \<lparr>APIKey = apiKey, Debug = True, DryRun = False\<rparr>"
  shows "(getRecord (gandi_NewLiveDNSClient w clientcfg) root subdomain ''TXT'' = Inl lookup_err \<longrightarrow>
            CleanUp c w ch =
              (Returned None,
               [(NewLiveDNSClient clientcfg, None),
                (GetDomainRecordByNameAndType root subdomain ''TXT'', Some lookup_err)]))
       \<and> (getRecord (gandi_NewLiveDNSClient w clientcfg) root subdomain ''TXT'' = Inr record \<longrightarrow>
            snd (CleanUp c w ch) =
              [(NewLiveDNSClient clientcfg, None),
               (GetDomainRecordByNameAndType root subdomain ''TXT'', None),
               (DeleteDomainRecord root subdomain ''TXT'',
                deleteRecord (gandi_NewLiveDNSClient w clientcfg) root subdomain ''TXT'')] \<and>
            fst (CleanUp c w ch) =
              Returned (map_option (\<lambda>err. Errorf ''unable to delete TXT record: %v'' [V err])
                (deleteRecord (gandi_NewLiveDNSClient w clientcfg) root subdomain ''TXT'')))"
  using assms by (auto simp: CleanUp_def Let_def split: option.splits)

theorem CleanUp_deletes_when_present_witness:
  "CleanUp demo_solver (demo_world Map.empty None) demo_challenge =
     (Returned None,
      [(NewLiveDNSClient \<lparr>APIKey = ''s3cret'', Debug = True, DryRun = False\<rparr>, None),
       (GetDomainRecordByNameAndType ''example.com'' ''_acme-challenge.foo'' ''TXT'',
        Some (Opaque ''404 Not Found''))])
   \<and> snd (CleanUp demo_solver (demo_world (demo_zone [''unrelated'']) None) demo_challenge) =
      [(NewLiveDNSClient \<lparr>APIKey = ''s3cret'', Debug = True, DryRun = False\<rparr>, None),
       (GetDomainRecordByNameAndType ''example.com'' ''_acme-challenge.foo'' ''TXT'', None),
       (DeleteDomainRecord ''example.com'' ''_acme-challenge.foo'' ''TXT'', None)]
   \<and> fst (CleanUp demo_solver (demo_world (demo_zone [''unrelated''])
          (Some (Opaque ''403 Forbidden''))) demo_challenge) =
      Returned (Some (Errorf ''unable to delete TXT record: %v'' [V (Opaque ''403 Forbidden'')]))"
  using CleanUp_deletes_when_present [OF demo_loadConfig demo_getApiKey demo_getDomainAndEntry
      demo_extract refl, of Map.empty None "Opaque ''404 Not Found''", THEN conjunct1, rule_format,
      OF demo_getRecord_absent]
    CleanUp_deletes_when_present [OF demo_loadConfig demo_getApiKey demo_getDomainAndEntry
      demo_extract refl, of "demo_zone [''unrelated'']" None _ "demo_record [''unrelated'']",
      THEN conjunct2, rule_format, OF demo_getRecord_found]
    CleanUp_deletes_when_present [OF demo_loadConfig demo_getApiKey demo_getDomainAndEntry
      demo_extract refl, of "demo_zone [''unrelated'']" "Some (Opaque ''403 Forbidden'')" _
      "demo_record [''unrelated'']", THEN conjunct2, rule_format, OF demo_getRecord_found]
  by (simp add: demo_writes)

text \<open>
  The configuration of the provider client, for every request on which the configuration
  decodes and the API key resolves: the first event of the trace is the construction of
  the client.
\<close>

lemma client_config_of_both:
  assumes "loadConfig (json_Unmarshal w) (Config ch) = (cfg, None)"
    and "getApiKey c cfg (ResourceNamespace ch) = Some (Inr apiKey)"
  shows "hd (snd (Present c w ch)) =
           (NewLiveDNSClient \<lparr>APIKey = apiKey, Debug = False, DryRun = False\<rparr>, None)"
    and "hd (snd (CleanUp c w ch)) =
           (NewLiveDNSClient \<lparr>APIKey = apiKey, Debug = True, DryRun = False\<rparr>, None)"
  using assms
  by (auto simp: Present_def CleanUp_def Let_def
        split: prod.splits option.splits sum.splits if_splits)

text \<open>
  Claim C6. Present and CleanUp decode the configuration, resolve the credential and split
  the domain in the same way, and both build the provider client from the resolved API key
  with the dry-run mode off. The debug mode differs: on the request of the scenario
  Present builds the client with \<open>Debug = False\<close> and CleanUp builds it with
  \<open>Debug = True\<close>.
\<close>

theorem CleanUp_client_debug_mode:
  "hd (snd (Present demo_solver (demo_world Map.empty None) demo_challenge)) =
     (NewLiveDNSClient \<lparr>APIKey = ''s3cret'', Debug = False, DryRun = False\<rparr>, None)
   \<and> hd (snd (CleanUp demo_solver (demo_world Map.empty None) demo_challenge)) =
     (NewLiveDNSClient \<lparr>APIKey = ''s3cret'', Debug = True, DryRun = False\<rparr>, None)"
  by (simp add: Present_def CleanUp_def demo_loadConfig demo_getApiKey demo_getDomainAndEntry
        demo_extract demo_getRecord_absent demo_writes Let_def)

text \<open>
  Claim C7. For a nil configuration \<open>loadConfig\<close> returns the zero-value configuration and
  a nil error. For a configuration that is not nil it returns what the JSON decoder made
  of the raw bytes: when the decoder reports an error, that error wrapped as a decoding
  error; when it reports none, the decoded configuration and a nil error.
\<close>

theorem loadConfig_cases:
  "loadConfig unmarshal None = (\<lparr>APIKeySecretRef = \<lparr>RefName = [], RefKey = []\<rparr>\<rparr>, None)
   \<and> (unmarshal raw \<lparr>APIKeySecretRef = \<lparr>RefName = [], RefKey = []\<rparr>\<rparr> = (cfg, Some err) \<longrightarrow>
        loadConfig unmarshal (Some raw) =
          (cfg, Some (Errorf ''error decoding solver config: %v'' [V err])))
   \<and> (unmarshal raw \<lparr>APIKeySecretRef = \<lparr>RefName = [], RefKey = []\<rparr>\<rparr> = (cfg, None) \<longrightarrow>
        loadConfig unmarshal (Some raw) = (cfg, None))"
  by (simp add: loadConfig_def)

theorem loadConfig_cases_witness:
  "loadConfig demo_unmarshal None = (\<lparr>APIKeySecretRef = \<lparr>RefName = [], RefKey = []\<rparr>\<rparr>, None)
   \<and> loadConfig demo_unmarshal (Some ''{'') =
        (\<lparr>APIKeySecretRef = \<lparr>RefName = [], RefKey = []\<rparr>\<rparr>,
         Some (Errorf ''error decoding solver config: %v'' [V (Opaque ''unexpected end of JSON input'')]))
   \<and> loadConfig demo_unmarshal (Some demo_json) =
        (\<lparr>APIKeySecretRef = \<lparr>RefName = ''gandi-credentials'', RefKey = ''api-token''\<rparr>\<rparr>, None)"
proof -
  have bad: "demo_unmarshal ''{'' \<lparr>APIKeySecretRef = \<lparr>RefName = [], RefKey = []\<rparr>\<rparr> =
      (\<lparr>APIKeySecretRef = \<lparr>RefName = [], RefKey = []\<rparr>\<rparr>, Some (Opaque ''unexpected end of JSON input''))"
    by (simp add: demo_unmarshal_def demo_json_def)
  have good: "demo_unmarshal demo_json \<lparr>APIKeySecretRef = \<lparr>RefName = [], RefKey = []\<rparr>\<rparr> =
      (\<lparr>APIKeySecretRef = \<lparr>RefName = ''gandi-credentials'', RefKey = ''api-token''\<rparr>\<rparr>, None)"
    by (simp add: demo_unmarshal_def)
  from loadConfig_cases [of demo_unmarshal, THEN conjunct1]
    loadConfig_cases [of demo_unmarshal, THEN conjunct2, THEN conjunct1, rule_format, OF bad]
    loadConfig_cases [of demo_unmarshal, THEN conjunct2, THEN conjunct2, rule_format, OF good]
  show ?thesis by simp
qed

text \<open>
  Claim C8. With the Kubernetes client in place: when the secret cannot be fetched,
  \<open>getApiKey\<close> fails with an error that wraps the one of the lookup; when the secret is
  fetched and its data has no entry under the configured key, it fails with the error
  "key ... not found in secret ...", whose arguments are the key, the name of the secret
  and the namespace; otherwise it returns the bytes stored under the key, as a string.
\<close>

theorem getApiKey_cases:
  assumes "client c = Some secrets"
  shows "(secrets namespace (RefName (APIKeySecretRef cfg)) = Inl err \<longrightarrow>
            getApiKey c cfg namespace =
              Some (Inl (Errorf ''unable to get secret `%s`; %v''
                           [S (RefName (APIKeySecretRef cfg)), V err])))
       \<and> (secrets namespace (RefName (APIKeySecretRef cfg)) = Inr sec \<longrightarrow>
          Data sec (RefKey (APIKeySecretRef cfg)) = None \<longrightarrow>
            getApiKey c cfg namespace =
              Some (Inl (Errorf (''key %q not found in secret '' @ dq @ ''%s/%s'' @ dq)
                           [Q (RefKey (APIKeySecretRef cfg)),
                            S (RefName (APIKeySecretRef cfg)), S namespace])))
       \<and> (secrets namespace (RefName (APIKeySecretRef cfg)) = Inr sec \<longrightarrow>
          Data sec (RefKey (APIKeySecretRef cfg)) = Some secBytes \<longrightarrow>
            getApiKey c cfg namespace = Some (Inr secBytes))"
  using assms by (simp add: getApiKey_def)

theorem getApiKey_cases_witness:
  "getApiKey demo_solver \<lparr>APIKeySecretRef = \<lparr>RefName = ''missing'', RefKey = ''api-token''\<rparr>\<rparr>
       ''cert-manager'' =
     Some (Inl (Errorf ''unable to get secret `%s`; %v'' [S ''missing'', V (Opaque ''secret not found'')]))
   \<and> getApiKey demo_solver \<lparr>APIKeySecretRef = \<lparr>RefName = ''gandi-credentials'', RefKey = ''token''\<rparr>\<rparr>
       ''cert-manager'' =
     Some (Inl (Errorf (''key %q not found in secret '' @ dq @ ''%s/%s'' @ dq)
                  [Q ''token'', S ''gandi-credentials'', S ''cert-manager'']))
   \<and> getApiKey demo_solver \<lparr>APIKeySecretRef = \<lparr>RefName = ''gandi-credentials'', RefKey = ''api-token''\<rparr>\<rparr>
       ''cert-manager'' = Some (Inr ''s3cret'')"
proof -
  have c: "client demo_solver = Some demo_secrets" by (simp add: demo_solver_def)
  have a: "demo_secrets ''cert-manager'' ''missing'' = Inl (Opaque ''secret not found'')"
    by (simp add: demo_secrets_def)
  have b: "demo_secrets ''cert-manager'' ''gandi-credentials'' = Inr \<lparr>Data = [''api-token'' \<mapsto> ''s3cret'']\<rparr>"
    by (simp add: demo_secrets_def)
  from getApiKey_cases [OF c, of "''cert-manager''"
        "\<lparr>APIKeySecretRef = \<lparr>RefName = ''missing'', RefKey = ''api-token''\<rparr>\<rparr>"] a
    getApiKey_cases [OF c, of "''cert-manager''"
        "\<lparr>APIKeySecretRef = \<lparr>RefName = ''gandi-credentials'', RefKey = ''token''\<rparr>\<rparr>" _
        "\<lparr>Data = [''api-token'' \<mapsto> ''s3cret'']\<rparr>"] b
    getApiKey_cases [OF c, of "''cert-manager''"
        "\<lparr>APIKeySecretRef = \<lparr>RefName = ''gandi-credentials'', RefKey = ''api-token''\<rparr>\<rparr>" _
        "\<lparr>Data = [''api-token'' \<mapsto> ''s3cret'']\<rparr>" "''s3cret''"] b
  show ?thesis by simp
qed

text \<open>
  Claim C9. The domain split panics (index out of range) exactly when the dot-trimmed
  domain has fewer than two dot-separated labels; it does so for \<open>com\<close>, for the empty
  string and for every string of dots only. Once the configuration is decoded and the API
  key resolved, Present and CleanUp panic exactly when the dot-trimmed resolved zone has
  fewer than two labels.
\<close>

theorem extractRootAndSubDomain_partial:
  "(extractRootAndSubDomain fqdn entry = None \<longleftrightarrow>
      length (Split (Trim fqdn ''.'') (CHR ''.'')) < 2)
   \<and> extractRootAndSubDomain ''com'' entry = None
   \<and> extractRootAndSubDomain '''' entry = None
   \<and> extractRootAndSubDomain (replicate k (CHR ''.'')) entry = None
   \<and> (loadConfig (json_Unmarshal w) (Config ch) = (cfg, None) \<longrightarrow>
      getApiKey c cfg (ResourceNamespace ch) = Some (Inr apiKey) \<longrightarrow>
        (fst (Present c w ch) = Panicked \<longleftrightarrow>
           length (Split (Trim (ResolvedZone ch) ''.'') (CHR ''.'')) < 2) \<and>
        (fst (CleanUp c w ch) = Panicked \<longleftrightarrow>
           length (Split (Trim (ResolvedZone ch) ''.'') (CHR ''.'')) < 2))"
proof (intro conjI impI)
  show "extractRootAndSubDomain fqdn entry = None \<longleftrightarrow>
      length (Split (Trim fqdn ''.'') (CHR ''.'')) < 2"
    by (rule extract_None_iff)
  show "extractRootAndSubDomain ''com'' entry = None"
    by (simp add: extract_None_iff Trim_def Split.simps)
  show "extractRootAndSubDomain '''' entry = None"
    by (simp add: extract_None_iff Trim_def Split.simps)
  have "Trim (replicate k (CHR ''.'')) ''.'' = []"
    by (rule Trim_replicate)
  then show "extractRootAndSubDomain (replicate k (CHR ''.'')) entry = None"
    by (simp add: extract_None_iff Split.simps)
next
  assume a: "loadConfig (json_Unmarshal w) (Config ch) = (cfg, None)"
    "getApiKey c cfg (ResourceNamespace ch) = Some (Inr apiKey)"
  show "fst (Present c w ch) = Panicked \<longleftrightarrow>
           length (Split (Trim (ResolvedZone ch) ''.'') (CHR ''.'')) < 2"
    by (simp only: Present_Panicked_iff [OF a] extract_None_iff domain_labels)
  show "fst (CleanUp c w ch) = Panicked \<longleftrightarrow>
           length (Split (Trim (ResolvedZone ch) ''.'') (CHR ''.'')) < 2"
    by (simp only: CleanUp_Panicked_iff [OF a] extract_None_iff domain_labels)
qed

theorem extractRootAndSubDomain_partial_witness:
  "extractRootAndSubDomain ''.'' ''_acme-challenge'' = None
   \<and> fst (Present demo_solver (demo_world Map.empty None) (demo_challenge\<lparr>ResolvedZone := ''com.''\<rparr>))
       = Panicked
   \<and> fst (CleanUp demo_solver (demo_world Map.empty None) (demo_challenge\<lparr>ResolvedZone := ''com.''\<rparr>))
       = Panicked
   \<and> fst (Present demo_solver (demo_world Map.empty None) demo_challenge) \<noteq> Panicked"
proof -
  have cfg: "loadConfig (json_Unmarshal (demo_world Map.empty None))
       (Config (demo_challenge\<lparr>ResolvedZone := z\<rparr>)) =
     (\<lparr>APIKeySecretRef = \<lparr>RefName = ''gandi-credentials'', RefKey = ''api-token''\<rparr>\<rparr>, None)" for z
    using demo_loadConfig [of Map.empty None] by (simp add: demo_challenge_def)
  have key: "getApiKey demo_solver
       \<lparr>APIKeySecretRef = \<lparr>RefName = ''gandi-credentials'', RefKey = ''api-token''\<rparr>\<rparr>
       (ResourceNamespace (demo_challenge\<lparr>ResolvedZone := z\<rparr>)) = Some (Inr ''s3cret'')" for z
    using demo_getApiKey by (simp add: demo_challenge_def)
  note t = extractRootAndSubDomain_partial [of _ _ _ "demo_world Map.empty None"
      "demo_challenge\<lparr>ResolvedZone := ''com.''\<rparr>" _ demo_solver, THEN conjunct2, THEN conjunct2,
      THEN conjunct2, THEN conjunct2, rule_format, OF cfg key]
  note u = extractRootAndSubDomain_partial [of _ _ _ "demo_world Map.empty None"
      "demo_challenge\<lparr>ResolvedZone := ''example.com.''\<rparr>" _ demo_solver, THEN conjunct2, THEN conjunct2,
      THEN conjunct2, THEN conjunct2, rule_format, OF cfg key]
  note v = extractRootAndSubDomain_partial [of _ "''_acme-challenge''" 1, THEN conjunct2,
      THEN conjunct2, THEN conjunct2, THEN conjunct1]
  have e: "demo_challenge\<lparr>ResolvedZone := ''example.com.''\<rparr> = demo_challenge"
    by (simp add: demo_challenge_def)
  from t u v show ?thesis
    unfolding e by (simp add: Trim_def Split.simps demo_challenge_def)
qed

text \<open>
  Claim C10. Whenever the domain split returns, its error is nil; so neither Present nor
  CleanUp ever returns the error "unable to mange provided domain".
\<close>

theorem extractRootAndSubDomain_error_nil:
  "(extractRootAndSubDomain fqdn entry = Some (root, subdomain, err) \<longrightarrow> err = None)
   \<and> fst (Present c w ch) \<noteq> Returned (Some (Errorf ''unable to mange provided domain : %v'' args))
   \<and> fst (CleanUp c w ch) \<noteq> Returned (Some (Errorf ''unable to mange provided domain : %v'' args))"
proof (intro conjI impI)
  show "extractRootAndSubDomain fqdn entry = Some (root, subdomain, err) \<Longrightarrow> err = None"
    by (rule extract_no_error)
  show "fst (Present c w ch) \<noteq> Returned (Some (Errorf ''unable to mange provided domain : %v'' args))"
    by (auto simp: Present_def Let_def dest: extract_no_error
          split: prod.splits option.splits sum.splits if_splits)
  show "fst (CleanUp c w ch) \<noteq> Returned (Some (Errorf ''unable to mange provided domain : %v'' args))"
    by (auto simp: CleanUp_def Let_def dest: extract_no_error
          split: prod.splits option.splits sum.splits if_splits)
qed

theorem extractRootAndSubDomain_error_nil_witness:
  "extractRootAndSubDomain ''example.com'' ''_acme-challenge.foo'' =
     Some (''example.com'', ''_acme-challenge.foo'', None)
   \<and> fst (Present demo_solver (demo_world Map.empty None) demo_challenge) \<noteq>
       Returned (Some (Errorf ''unable to mange provided domain : %v'' []))
   \<and> fst (CleanUp demo_solver (demo_world Map.empty None) demo_challenge) \<noteq>
       Returned (Some (Errorf ''unable to mange provided domain : %v'' []))"
proof -
  obtain e where x: "extractRootAndSubDomain ''example.com'' ''_acme-challenge.foo'' =
      Some (''example.com'', ''_acme-challenge.foo'', e)"
    by (simp add: demo_extract)
  note t = extractRootAndSubDomain_error_nil [of "''example.com''" "''_acme-challenge.foo''"
      "''example.com''" "''_acme-challenge.foo''" e
      demo_solver "demo_world Map.empty None" demo_challenge "[]"]
  from t x have "e = None" by blast
  with x t show ?thesis by blast
qed

end
